theory Spec2Isabelle
  imports Main "HOL-Library.Word" "HOL-Library.Sublist"
begin

section \<open>Process information from procfs: \<^verbatim>\<open>pkg/sys/proc/proc.go\<close>\<close>

text \<open>
  A shallow embedding of the package \<^verbatim>\<open>proc\<close>. A Go \<^verbatim>\<open>string\<close> and a
  \<^verbatim>\<open>[]byte\<close> are both a list of bytes (\<^typ>\<open>string\<close>); a nil slice and an empty
  slice are both the empty list (the package never builds an empty slice that is not nil).
  The two ways the package ends the process are values of \<open>abort\<close>: \<^verbatim>\<open>glog.Fatalf\<close>
  (which logs and exits) and a run-time panic (an index out of range, or the
  \<^verbatim>\<open>panic(err)\<close> of \<^verbatim>\<open>BootID\<close>). A function that can end the process returns
  \<open>abort + 'a\<close>.
\<close>

datatype abort =
    Fatal string string \<comment> \<open>\<^verbatim>\<open>glog.Fatalf(format, arg)\<close>\<close>
  | IndexOutOfRange nat nat \<comment> \<open>run-time panic: the index and the length\<close>
  | PanicReadError string \<comment> \<open>\<^verbatim>\<open>panic(err)\<close> after a failed read of the path\<close>

text \<open>Go's index expression \<^verbatim>\<open>xs[i]\<close>: a run-time panic when \<open>i\<close> is out of range.\<close>

definition index :: "'a list \<Rightarrow> nat \<Rightarrow> abort + 'a" where
  "index xs i = (if i < length xs then Inr (xs ! i) else Inl (IndexOutOfRange i (length xs)))"

subsection \<open>The library functions the package calls\<close>

text \<open>
  \<^verbatim>\<open>strings.Split(s, sep)\<close> for a separator of one byte, the only kind the package
  passes: the text before the first separator, then the split of the text after it; a
  text without a separator is the last piece. So there is one piece more than there are
  separators, and never an empty slice.
\<close>

function Split :: "string \<Rightarrow> char \<Rightarrow> string list" where
  "Split s sep =
     (case dropWhile (\<lambda>c. c \<noteq> sep) s of
        [] \<Rightarrow> [s]
      | d # rest \<Rightarrow> takeWhile (\<lambda>c. c \<noteq> sep) s # Split rest sep)"
  by pat_completeness auto
termination
  apply (relation "measure (\<lambda>(s, sep). length s)")
   apply simp
  subgoal for s sep
    using length_dropWhile_le [of "\<lambda>c. c \<noteq> sep" s]
    by auto
  done

text \<open>\<^verbatim>\<open>strings.HasPrefix(s, prefix)\<close>.\<close>

definition HasPrefix :: "string \<Rightarrow> string \<Rightarrow> bool" where
  "HasPrefix s p = (take (length p) s = p)"

text \<open>
  \<^verbatim>\<open>strings.Trim(s, cutset)\<close>: every leading and every trailing byte that is in the
  cutset is removed. (The cutsets of the package are ASCII, so working on bytes is exact.)
\<close>

definition TrimLeft :: "string \<Rightarrow> string \<Rightarrow> string" where
  "TrimLeft s cutset = dropWhile (\<lambda>c. c \<in> set cutset) s"

definition TrimRight :: "string \<Rightarrow> string \<Rightarrow> string" where
  "TrimRight s cutset = rev (dropWhile (\<lambda>c. c \<in> set cutset) (rev s))"

definition Trim :: "string \<Rightarrow> string \<Rightarrow> string" where
  "Trim s cutset = TrimRight (TrimLeft s cutset) cutset"

text \<open>
  White space as \<^verbatim>\<open>strings.Fields\<close> and \<^verbatim>\<open>strings.TrimSpace\<close> see it in ASCII
  text: tab, line feed, vertical tab, form feed, carriage return and space. On text with
  bytes from \<open>0x80\<close> on, Go decodes UTF-8 and also splits at the Unicode spaces (U+0085,
  U+00A0, U+2000 and so on); the model works on bytes and is exact for text that holds
  none of those.
\<close>

definition asciiSpace :: "char \<Rightarrow> bool" where
  "asciiSpace c = (c \<in> set [CHR 0x09, CHR 0x0A, CHR 0x0B, CHR 0x0C, CHR 0x0D, CHR '' ''])"

fun Fields_from :: "string \<Rightarrow> string \<Rightarrow> string list" where
  "Fields_from cur [] = (if cur = [] then [] else [rev cur])"
| "Fields_from cur (c # cs) =
     (if asciiSpace c then (if cur = [] then Fields_from [] cs else rev cur # Fields_from [] cs)
      else Fields_from (c # cur) cs)"

definition Fields :: "string \<Rightarrow> string list" where
  "Fields s = Fields_from [] s"

definition TrimSpace :: "string \<Rightarrow> string" where
  "TrimSpace s = rev (dropWhile asciiSpace (rev (dropWhile asciiSpace s)))"

text \<open>
  \<^verbatim>\<open>bufio.Scanner\<close> with its default split function \<^verbatim>\<open>ScanLines\<close> and its default
  buffer: the tokens that the successive calls of \<^verbatim>\<open>Scan\<close> deliver until \<^verbatim>\<open>Scan\<close>
  returns false. A token is a line without its line feed and without one carriage return
  before it; the text after the last line feed is a last token unless it is empty. A
  line that does not fit the buffer of \<^verbatim>\<open>MaxScanTokenSize\<close> bytes ends the scan with
  \<^verbatim>\<open>ErrTooLong\<close>, which \<^verbatim>\<open>Cgroups\<close> never looks at.
\<close>

definition MaxScanTokenSize :: nat where
  "MaxScanTokenSize = 64 * 1024"

definition dropCR :: "string \<Rightarrow> string" where
  "dropCR l = (if l \<noteq> [] \<and> last l = CHR 0x0D then butlast l else l)"

fun scan_pieces :: "string list \<Rightarrow> string list" where
  "scan_pieces [] = []"
| "scan_pieces [l] =
     (if l = [] then [] else if length l < MaxScanTokenSize then [dropCR l] else [])"
| "scan_pieces (l # ls) =
     (if length l < MaxScanTokenSize then dropCR l # scan_pieces ls else [])"

definition ScanLines :: "string \<Rightarrow> string list" where
  "ScanLines text = scan_pieces (Split text (CHR 0x0A))"

text \<open>
  \<^verbatim>\<open>bufio.Reader.ReadString(delim)\<close> on the bytes not yet read: the bytes up to and
  with the first delimiter, the bytes left, and no error; or, when there is no delimiter,
  all the bytes and the error \<^verbatim>\<open>io.EOF\<close> (\<open>True\<close>).
\<close>

definition ReadString :: "string \<Rightarrow> char \<Rightarrow> string \<times> string \<times> bool" where
  "ReadString buf delim =
     (case dropWhile (\<lambda>c. c \<noteq> delim) buf of
        [] \<Rightarrow> (buf, [], True)
      | d # rest \<Rightarrow> (takeWhile (\<lambda>c. c \<noteq> delim) buf @ [d], rest, False))"


subsection \<open>\<^verbatim>\<open>strconv\<close>: parsing integers\<close>

text \<open>
  \<^verbatim>\<open>strconv.ParseUint(s, base, bitSize)\<close> and \<^verbatim>\<open>strconv.ParseInt\<close>, as in the Go
  releases the package was written for: with base 0 the prefix \<^verbatim>\<open>0x\<close> means base 16, a
  leading \<^verbatim>\<open>0\<close> base 8, anything else base 10. Both return a value and an error
  (\<open>None\<close> for \<^verbatim>\<open>nil\<close>). The \<^verbatim>\<open>uint64\<close> arithmetic is on \<open>nat\<close> with the wrap-around
  modulo \<open>2 ^ 64\<close> written out; \<^verbatim>\<open>int\<close> has 64 bits. The package never uses a value
  that comes with an error; \<^verbatim>\<open>ParseInt\<close> does, to turn a range error of
  \<^verbatim>\<open>ParseUint\<close>, which comes with the largest \<^verbatim>\<open>uint64\<close>, into its own.
\<close>

datatype NumError = ErrSyntax | ErrRange | ErrBase

definition maxUint64 :: nat where
  "maxUint64 = 2 ^ 64 - 1"

definition IntSize :: nat where
  "IntSize = 64"

text \<open>The value of a byte as a digit: \<^verbatim>\<open>0-9\<close>, \<^verbatim>\<open>a-z\<close> and \<^verbatim>\<open>A-Z\<close> from 10 on.\<close>

definition digit_val :: "char \<Rightarrow> nat option" where
  "digit_val d =
     (let b = (of_char d :: nat) in
      if 48 \<le> b \<and> b \<le> 57 then Some (b - 48)
      else if 97 \<le> b \<and> b \<le> 122 then Some (b - 97 + 10)
      else if 65 \<le> b \<and> b \<le> 90 then Some (b - 65 + 10)
      else None)"

fun ParseUint_loop :: "nat \<Rightarrow> nat \<Rightarrow> nat \<Rightarrow> string \<Rightarrow> nat \<Rightarrow> nat \<times> NumError option" where
  "ParseUint_loop base cutoff maxVal [] n = (n, None)"
| "ParseUint_loop base cutoff maxVal (d # ds) n =
     (case digit_val d of
        None \<Rightarrow> (0, Some ErrSyntax)
      | Some v \<Rightarrow>
          if v \<ge> base then (0, Some ErrSyntax)
          else if n \<ge> cutoff then (maxUint64, Some ErrRange)
          else
            let n' = (n * base) mod 2 ^ 64;
                n1 = (n' + v) mod 2 ^ 64
            in if n1 < n' \<or> n1 > maxVal then (maxUint64, Some ErrRange)
               else ParseUint_loop base cutoff maxVal ds n1)"

definition ParseUint_base :: "string \<Rightarrow> nat \<Rightarrow> nat \<Rightarrow> nat \<times> NumError option" where
  "ParseUint_base digits base bitSize =
     ParseUint_loop base (maxUint64 div base + 1) ((2 ^ bitSize + 2 ^ 64 - 1) mod 2 ^ 64) digits 0"

definition ParseUint :: "string \<Rightarrow> nat \<Rightarrow> nat \<Rightarrow> nat \<times> NumError option" where
  "ParseUint s base bitSize0 =
     (let bitSize = (if bitSize0 = 0 then IntSize else bitSize0) in
      if length s < 1 then (0, Some ErrSyntax)
      else if 2 \<le> base \<and> base \<le> 36 then ParseUint_base s base bitSize
      else if base = 0 then
        (if s ! 0 = CHR ''0'' \<and> length s > 1 \<and> (s ! 1 = CHR ''x'' \<or> s ! 1 = CHR ''X'') then
           (if length s < 3 then (0, Some ErrSyntax) else ParseUint_base (drop 2 s) 16 bitSize)
         else if s ! 0 = CHR ''0'' then ParseUint_base (drop 1 s) 8 bitSize
         else ParseUint_base s 10 bitSize)
      else (0, Some ErrBase))"

definition ParseInt :: "string \<Rightarrow> nat \<Rightarrow> nat \<Rightarrow> int \<times> NumError option" where
  "ParseInt s0 base bitSize0 =
     (let bitSize = (if bitSize0 = 0 then IntSize else bitSize0) in
      if length s0 = 0 then (0, Some ErrSyntax)
      else
        let neg = (s0 ! 0 = CHR ''-'');
            s = (if s0 ! 0 = CHR ''+'' \<or> s0 ! 0 = CHR ''-'' then drop 1 s0 else s0);
            (un, err) = ParseUint s base bitSize;
            cutoff = (2 :: nat) ^ (bitSize - 1)
        in if err \<noteq> None \<and> err \<noteq> Some ErrRange then (0, err)
           else if \<not> neg \<and> un \<ge> cutoff then (int cutoff - 1, Some ErrRange)
           else if neg \<and> un > cutoff then (- int cutoff, Some ErrRange)
           else (if neg then - int un else int un, None))"

definition Atoi :: "string \<Rightarrow> int \<times> NumError option" where
  "Atoi s = ParseInt s 10 0"

text \<open>The verb \<^verbatim>\<open>%d\<close> of \<^verbatim>\<open>fmt.Sprintf\<close>: an integer in decimal.\<close>

fun decimal :: "nat \<Rightarrow> string" where
  "decimal n =
     (if n < 10 then [''0123456789'' ! n]
      else decimal (n div 10) @ [''0123456789'' ! (n mod 10)])"

definition Sprintf_d :: "int \<Rightarrow> string" where
  "Sprintf_d i = (if i < 0 then CHR ''-'' # decimal (nat (- i)) else decimal (nat i))"

text \<open>The verb \<^verbatim>\<open>%x\<close> on a byte slice: two lower-case hexadecimal digits a byte.\<close>

definition hex_byte :: "char \<Rightarrow> string" where
  "hex_byte c =
     [''0123456789abcdef'' ! (of_char c div 16), ''0123456789abcdef'' ! (of_char c mod 16)]"

definition Sprintf_x :: "string \<Rightarrow> string" where
  "Sprintf_x bs = concat (map hex_byte bs)"

subsection \<open>\<^verbatim>\<open>encoding/binary\<close>: \<^verbatim>\<open>binary.Write\<close> with \<^verbatim>\<open>binary.LittleEndian\<close>\<close>

text \<open>
  The data that \<^verbatim>\<open>UniqueID\<close> passes to \<^verbatim>\<open>binary.Write\<close> as an \<^verbatim>\<open>interface{}\<close>: a
  \<^verbatim>\<open>string\<close> and two \<^verbatim>\<open>uint64\<close>. \<^verbatim>\<open>binary.Write\<close> encodes fixed-size values and slices
  of them only: a \<^verbatim>\<open>uint64\<close> is written as 8 bytes, least significant first; for a
  \<^verbatim>\<open>string\<close> it writes nothing and returns the error \<^verbatim>\<open>invalid type string\<close>. The result
  is the bytes the writer has received so far, and whether an error was returned.
\<close>

datatype data = String string | Uint64 "64 word"

definition PutUint64 :: "64 word \<Rightarrow> string" where
  "PutUint64 v = map (\<lambda>i. char_of (unat (drop_bit (8 * i) v))) [0..<8]"

fun binary_Write :: "string \<Rightarrow> data \<Rightarrow> string \<times> bool" where
  "binary_Write w (Uint64 v) = (w @ PutUint64 v, False)"
| "binary_Write w (String s) = (w, True)"

subsection \<open>The package\<close>

text \<open>
  A \<^verbatim>\<open>FileSystem\<close> is used through its method \<^verbatim>\<open>ReadFile\<close> only, so it is modelled by
  that method: the contents of the file at a relative path, or \<open>None\<close> when the read
  returns an error (no such process, no permission). The mount point and the blocking
  read are behind it.
\<close>

type_synonym FileSystem = "string \<Rightarrow> string option"

definition ReadFile :: "FileSystem \<Rightarrow> string \<Rightarrow> string option" where
  "ReadFile fs relativePath = fs relativePath"

record Cgroup =
  ID :: int
  Controllers :: "string list"
  Path :: string

record ProcessStatus =
  statFields :: "string list"
  pid :: "32 word"
  comm :: string
  ppid :: "32 word"
  startTime :: "64 word"
  startStack :: "64 word"
  uniqueID :: string

text \<open>
  \<^verbatim>\<open>CommandLine\<close>: the loop reads up to the next NUL byte; it ends at the end of the
  bytes and at a string that holds the NUL byte only.
\<close>

function CommandLine_loop :: "string \<Rightarrow> string list \<Rightarrow> string list" where
  "CommandLine_loop reader commandLine =
     (case ReadString reader (CHR 0x00) of
        (s, reader', err) \<Rightarrow>
          if err then commandLine
          else if length s > 1 then CommandLine_loop reader' (commandLine @ [take (length s - 1) s])
          else commandLine)"
  by pat_completeness auto
termination
  apply (relation "measure (\<lambda>(reader, commandLine). length reader)")
   apply simp
  subgoal for reader commandLine
    using length_dropWhile_le [of "\<lambda>c. c \<noteq> CHR 0x00" reader]
    by (auto simp: ReadString_def split: list.splits)
  done

definition CommandLine :: "FileSystem \<Rightarrow> 32 word \<Rightarrow> string list" where
  "CommandLine fs p =
     (case ReadFile fs (Sprintf_d (sint p) @ ''/cmdline'') of
        None \<Rightarrow> []
      | Some cmdline \<Rightarrow> CommandLine_loop cmdline [])"

text \<open>\<^verbatim>\<open>Cgroups\<close>: the loop over the lines that the scanner delivers.\<close>

fun Cgroups_loop :: "string list \<Rightarrow> Cgroup list \<Rightarrow> abort + Cgroup list" where
  "Cgroups_loop [] cgroups = Inr cgroups"
| "Cgroups_loop (t # ts) cgroups =
     (let parts = Split t (CHR '':'') in
      case index parts 0 of
        Inl e \<Rightarrow> Inl e
      | Inr part0 \<Rightarrow>
         (case Atoi part0 of
            (i, Some err) \<Rightarrow> Inl (Fatal ''Couldn't parse cgroup line: %s'' t)
          | (i, None) \<Rightarrow>
             (case index parts 1 of
                Inl e \<Rightarrow> Inl e
              | Inr part1 \<Rightarrow>
                 (case index parts 2 of
                    Inl e \<Rightarrow> Inl e
                  | Inr part2 \<Rightarrow>
                      Cgroups_loop ts
                        (cgroups @
                          [\<lparr>ID = i, Controllers = Split part1 (CHR '',''), Path = part2\<rparr>])))))"

definition Cgroups :: "FileSystem \<Rightarrow> 32 word \<Rightarrow> abort + Cgroup list" where
  "Cgroups fs p =
     (case ReadFile fs (Sprintf_d (sint p) @ ''/cgroup'') of
        None \<Rightarrow> Inr []
      | Some cgroup \<Rightarrow> Cgroups_loop (ScanLines cgroup) [])"

text \<open>\<^verbatim>\<open>ContainerID\<close>: the loop over the records, which returns at the first match.\<close>

fun ContainerID_loop :: "Cgroup list \<Rightarrow> abort + string" where
  "ContainerID_loop [] = Inr ''''"
| "ContainerID_loop (pci # cgroups) =
     (if HasPrefix (Path pci) ''/docker'' then index (Split (Path pci) (CHR ''/'')) 2
      else ContainerID_loop cgroups)"

definition ContainerID :: "FileSystem \<Rightarrow> 32 word \<Rightarrow> abort + string" where
  "ContainerID fs p =
     (case Cgroups fs p of
        Inl e \<Rightarrow> Inl e
      | Inr cgroups \<Rightarrow> ContainerID_loop cgroups)"

text \<open>\<^verbatim>\<open>Stat\<close>: \<open>None\<close> is the nil pointer; the cached fields start at their zero values.\<close>

definition Stat :: "FileSystem \<Rightarrow> 32 word \<Rightarrow> ProcessStatus option" where
  "Stat fs p =
     (case ReadFile fs (Sprintf_d (sint p) @ ''/stat'') of
        None \<Rightarrow> None
      | Some stat \<Rightarrow>
          Some \<lparr>statFields = Fields stat, pid = 0, comm = '''', ppid = 0,
                startTime = 0, startStack = 0, uniqueID = ''''\<rparr>)"


definition Command :: "ProcessStatus \<Rightarrow> abort + (string \<times> ProcessStatus)" where
  "Command ps =
     (if length (comm ps) = 0 then
        (case index (statFields ps) 1 of
           Inl e \<Rightarrow> Inl e
         | Inr tok \<Rightarrow> Inr (Trim tok ''()'', ps\<lparr>comm := Trim tok ''()''\<rparr>))
      else Inr (comm ps, ps))"


definition StartTime :: "ProcessStatus \<Rightarrow> abort + (64 word \<times> ProcessStatus)" where
  "StartTime ps =
     (if startTime ps = 0 then
        (case index (statFields ps) (22 - 1) of
           Inl e \<Rightarrow> Inl e
         | Inr st \<Rightarrow>
            (case ParseUint st 0 64 of
               (i, Some err) \<Rightarrow> Inl (Fatal ''Couldn't parse starttime: %s'' st)
             | (i, None) \<Rightarrow> Inr (of_nat i, ps\<lparr>startTime := of_nat i\<rparr>)))
      else Inr (startTime ps, ps))"

definition StartStack :: "ProcessStatus \<Rightarrow> abort + (64 word \<times> ProcessStatus)" where
  "StartStack ps =
     (if startStack ps = 0 then
        (case index (statFields ps) (28 - 1) of
           Inl e \<Rightarrow> Inl e
         | Inr ss \<Rightarrow>
            (case ParseUint ss 0 64 of
               (i, Some err) \<Rightarrow> Inl (Fatal ''Couldn't parse startstack: %s'' ss)
             | (i, None) \<Rightarrow> Inr (of_nat i, ps\<lparr>startStack := of_nat i\<rparr>)))
      else Inr (startStack ps, ps))"

text \<open>
  \<^verbatim>\<open>BootID\<close> reads through the default file system \<^verbatim>\<open>FS()\<close>, here the argument
  \<open>procFS\<close>; what the model returns is what the first call stores behind
  \<^verbatim>\<open>bootIDOnce\<close>.
\<close>

definition BootID :: "FileSystem \<Rightarrow> abort + string" where
  "BootID procFS =
     (case ReadFile procFS ''/sys/kernel/random/boot_id'' of
        None \<Rightarrow> Inl (PanicReadError ''/sys/kernel/random/boot_id'')
      | Some bytes \<Rightarrow> Inr (TrimSpace bytes))"

text \<open>
  \<^verbatim>\<open>ProcessStatus.UniqueID\<close>. The hash \<open>h\<close> is the bytes written to it so far, and
  \<^verbatim>\<open>h.Sum(nil)\<close> is the function \<open>sha256\<close> of them: the digest function of
  \<^verbatim>\<open>crypto/sha256\<close> is an argument of the model. The errors that \<^verbatim>\<open>binary.Write\<close>
  returns are dropped, as in the source.
\<close>

definition ProcessStatus_UniqueID ::
  "(string \<Rightarrow> string) \<Rightarrow> FileSystem \<Rightarrow> ProcessStatus \<Rightarrow> abort + (string \<times> ProcessStatus)" where
  "ProcessStatus_UniqueID sha256 procFS ps =
     (if length (uniqueID ps) = 0 then
        (let h = [] in
         case BootID procFS of
           Inl e \<Rightarrow> Inl e
         | Inr bootID \<Rightarrow>
            (let h = fst (binary_Write h (String bootID)) in
             case StartStack ps of
               Inl e \<Rightarrow> Inl e
             | Inr (ss, ps) \<Rightarrow>
                (let h = fst (binary_Write h (Uint64 ss)) in
                 case StartTime ps of
                   Inl e \<Rightarrow> Inl e
                 | Inr (st, ps) \<Rightarrow>
                    (let h = fst (binary_Write h (Uint64 st)) in
                     Inr (Sprintf_x (sha256 h), ps\<lparr>uniqueID := Sprintf_x (sha256 h)\<rparr>)))))
      else Inr (uniqueID ps, ps))"

definition UniqueID ::
  "(string \<Rightarrow> string) \<Rightarrow> FileSystem \<Rightarrow> FileSystem \<Rightarrow> 32 word \<Rightarrow> abort + string" where
  "UniqueID sha256 procFS fs p =
     (case Stat fs p of
        None \<Rightarrow> Inr ''''
      | Some ps \<Rightarrow> map_sum id fst (ProcessStatus_UniqueID sha256 procFS ps))"

subsection \<open>What the specification says of \<^verbatim>\<open>CommandLine\<close>\<close>


subsection \<open>Well-formed status lines\<close>


definition status_line :: "string list \<Rightarrow> string" where
  "status_line toks =
     (case toks of [] \<Rightarrow> [] | t # ts \<Rightarrow> t @ concat (map (\<lambda>u. CHR '' '' # u) ts)) @ [CHR 0x0A]"

subsection \<open>Example files\<close>

text \<open>
  A procfs with a few processes. Process 1 has the files of the specification's examples;
  the others have a command name in parentheses of its own, an empty argument, a cgroup
  path with a colon, and cgroup lines that are too short or have no number.
\<close>

definition example_fields :: "string \<Rightarrow> string \<Rightarrow> string \<Rightarrow> string \<Rightarrow> string \<Rightarrow> string list" where
  "example_fields f1 f2 f4 f22 f28 =
     [f1, f2, ''S'', f4, ''1'', ''1'', ''0'', ''-1'', ''4194560'', ''100'', ''200'', ''0'', ''0'',
      ''5'', ''3'', ''0'', ''0'', ''20'', ''0'', ''1'', ''0'', f22, ''12345678'', ''500'',
      ''18446744073709551615'', ''1'', ''1'', f28, ''0'', ''0'', ''0'', ''0'']"

definition stat_line :: "string \<Rightarrow> string \<Rightarrow> string \<Rightarrow> string \<Rightarrow> string \<Rightarrow> string" where
  "stat_line f1 f2 f4 f22 f28 = status_line (example_fields f1 f2 f4 f22 f28)"

definition fs_example :: FileSystem where
  "fs_example path =
     (if path = ''1/stat'' then
        Some (stat_line ''1'' ''(systemd)'' ''0'' ''98765'' ''140737488347136'')
      else if path = ''1/cmdline'' then Some (''ls'' @ [CHR 0x00] @ ''-la'' @ [CHR 0x00])
      else if path = ''1/cgroup'' then
        Some (''1:cpu,cpuacct:/'' @ [CHR 0x0A] @ ''2:pids:/user.slice'' @ [CHR 0x0A])
      else if path = ''2/stat'' then
        Some (stat_line ''2'' ''((sd-pam))'' ''1'' ''98800'' ''140737488347136'')
      else if path = ''2/cmdline'' then
        Some (''a'' @ [CHR 0x00, CHR 0x00] @ ''b'' @ [CHR 0x00])
      else if path = ''2/cgroup'' then Some (''1:name=systemd:/a:b'' @ [CHR 0x0A])
      else if path = ''3/stat'' then Some (stat_line ''x3'' ''(a)'' ''1y'' ''9.5'' ''7ffe'')
      else if path = ''3/cgroup'' then Some (''1:cpu:/docker'' @ [CHR 0x0A])
      else if path = ''4/cgroup'' then Some (''1:cpu'' @ [CHR 0x0A])
      else if path = ''5/cgroup'' then
        Some (''2:cpu:/'' @ [CHR 0x0A] @
          ''1:cpu:/docker/abc123def456/init.scope'' @ [CHR 0x0A])
      else if path = ''6/cgroup'' then
        Some (''4:memory:/'' @ [CHR 0x0A] @ ''3:devices:/docker'' @ [CHR 0x0A])
      else if path = ''7/cgroup'' then
        Some (''1:cpu:/'' @ [CHR 0x0A] @ ''x:pids:/'' @ [CHR 0x0A])
      else None)"

text \<open>Two default file systems that differ in the boot identifier only.\<close>

definition procFS_boot :: "string \<Rightarrow> FileSystem" where
  "procFS_boot bootID path =
     (if path = ''/sys/kernel/random/boot_id'' then Some (bootID @ [CHR 0x0A]) else None)"

subsection \<open>The life of a status record\<close>



section \<open>Properties\<close>

declare decimal.simps [simp del]
declare Split.simps [simp del]
declare CommandLine_loop.simps [simp del]

subsection \<open>Library functions\<close>

lemma Split_not_Nil: "Split s sep \<noteq> []"
  by (subst Split.simps) (simp split: list.split)

lemma index_Split_0: "index (Split s sep) 0 = Inr (hd (Split s sep))"
  using Split_not_Nil [of s sep] by (cases "Split s sep") (simp_all add: index_def)

lemma Split_no_sep: "dropWhile (\<lambda>c. c \<noteq> sep) s = [] \<Longrightarrow> Split s sep = [s]"
  by (subst Split.simps) (simp only: list.case)

lemma Split_sep:
  "dropWhile (\<lambda>c. c \<noteq> sep) s = d # rest \<Longrightarrow>
    Split s sep = takeWhile (\<lambda>c. c \<noteq> sep) s # Split rest sep"
  by (subst Split.simps) (simp only: list.case)



lemma Split_without_sep: "sep \<notin> set a \<Longrightarrow> Split a sep = [a]"
  by (rule Split_no_sep) auto

lemma Split_at_sep: "sep \<notin> set a \<Longrightarrow> Split (a @ sep # rest) sep = a # Split rest sep"
proof -
  assume a: "sep \<notin> set a"
  then have "dropWhile (\<lambda>c. c \<noteq> sep) (a @ sep # rest) = sep # rest"
    by (induction a) auto
  moreover from a have "takeWhile (\<lambda>c. c \<noteq> sep) (a @ sep # rest) = a"
    by (induction a) auto
  ultimately show ?thesis using Split_sep by simp
qed

lemma hd_Split: "hd (Split s sep) = takeWhile (\<lambda>c. c \<noteq> sep) s"
proof (cases "dropWhile (\<lambda>c. c \<noteq> sep) s")
  case Nil
  then have "takeWhile (\<lambda>c. c \<noteq> sep) s = s"
    using takeWhile_dropWhile_id [of "\<lambda>c. c \<noteq> sep" s] by simp
  with Nil show ?thesis by (simp only: Split_no_sep list.sel)
next
  case (Cons d rest)
  then show ?thesis by (simp add: Split_sep)
qed

text \<open>
  A line of \<^verbatim>\<open>MaxScanTokenSize\<close> bytes or more ends the scan: neither it nor a line after it
  is delivered.
\<close>

lemma ScanLines_line_too_long:
  assumes "CHR 0x0A \<notin> set l" and "MaxScanTokenSize \<le> length l"
  shows "ScanLines (l @ CHR 0x0A # rest) = []"
proof -
  obtain p ps where "Split rest (CHR 0x0A) = p # ps"
    using Split_not_Nil [of rest "CHR 0x0A"] by (cases "Split rest (CHR 0x0A)") auto
  with assms show ?thesis
    by (simp add: ScanLines_def Split_at_sep)
qed



subsection \<open>Decimal numbers are parsed to their value\<close>












subsection \<open>What the parsers reject\<close>

text \<open>
  With base 0 and without the prefix \<^verbatim>\<open>0x\<close>, a text with a byte that is not a decimal
  digit (and, for \<^verbatim>\<open>ParseInt\<close>, not a sign) is rejected.
\<close>

lemma ParseUint_loop_rejects:
  assumes "c \<in> set ds" and "\<And>v. digit_val c = Some v \<Longrightarrow> base \<le> v"
  shows "snd (ParseUint_loop base cutoff m ds n) \<noteq> None"
  using assms(1)
proof (induction ds arbitrary: n)
  case Nil
  then show ?case by simp
next
  case (Cons d ds)
  show ?case
  proof (cases "d = c")
    case True
    with assms(2) show ?thesis
      by (cases "digit_val c") auto
  next
    case False
    with Cons.prems have "c \<in> set ds" by simp
    then have "snd (ParseUint_loop base cutoff m ds n') \<noteq> None" for n'
      by (rule Cons.IH)
    then show ?thesis
      by (simp add: Let_def split: option.split)
  qed
qed

lemma decimal_digit_char:
  assumes "digit_val c = Some v" and "v < 10"
  shows "c \<in> set ''0123456789''"
proof -
  let ?b = "of_char c :: nat"
  from assms have range: "48 \<le> ?b" "?b \<le> 57"
    by (auto simp: digit_val_def Let_def split: if_splits)
  have "c = char_of ?b" by simp
  moreover from range have "?b \<in> set [48, 49, 50, 51, 52, 53, 54, 55, 56, 57]"
    by (simp) arith
  ultimately have "c \<in> char_of ` set [48 :: nat, 49, 50, 51, 52, 53, 54, 55, 56, 57]"
    by blast
  then show ?thesis
    by (auto simp: char_of_eq_iff)
qed

lemma ParseUint_rejects_non_digit:
  assumes "c \<in> set s" and "c \<notin> set ''0123456789''"
    and "\<not> (length s > 1 \<and> s ! 0 = CHR ''0'' \<and> (s ! 1 = CHR ''x'' \<or> s ! 1 = CHR ''X''))"
  shows "snd (ParseUint s 0 bitSize) \<noteq> None"
proof -
  have big: "base \<le> v" if "digit_val c = Some v" "base \<le> 10" for v base
    using decimal_digit_char [OF that(1)] assms(2) that(2) by (cases "v < 10") auto
  from assms(1) have nonempty: "\<not> length s < 1" by (cases s) auto
  show ?thesis
  proof (cases "s ! 0 = CHR ''0''")
    case True
    with assms(1,2) have "c \<in> set (drop 1 s)"
      by (cases s) auto
    then have "snd (ParseUint_base (drop 1 s) 8 b) \<noteq> None" for b
      unfolding ParseUint_base_def by (rule ParseUint_loop_rejects) (simp add: big)
    with True assms(3) nonempty show ?thesis
      by (auto simp: ParseUint_def Let_def)
  next
    case False
    have "snd (ParseUint_base s 10 b) \<noteq> None" for b
      unfolding ParseUint_base_def using assms(1) by (rule ParseUint_loop_rejects) (simp add: big)
    with False nonempty show ?thesis
      by (auto simp: ParseUint_def Let_def)
  qed
qed

lemma ParseUint_loop_ErrRange:
  "ParseUint_loop base cutoff m ds n = (un, Some ErrRange) \<Longrightarrow> un = maxUint64"
  by (induction ds arbitrary: n) (auto simp: Let_def split: option.splits if_splits)

lemma ParseUint_ErrRange:
  "ParseUint s base bitSize = (un, Some ErrRange) \<Longrightarrow> un = maxUint64"
  by (auto simp: ParseUint_def ParseUint_base_def Let_def dest: ParseUint_loop_ErrRange
      split: if_splits)

lemma ParseInt_rejects_non_digit:
  assumes "c \<in> set s" and "c \<notin> set ''0123456789''" and "c \<noteq> CHR ''+''" and "c \<noteq> CHR ''-''"
    and "\<not> (length s > 1 \<and> s ! 0 = CHR ''0'' \<and> (s ! 1 = CHR ''x'' \<or> s ! 1 = CHR ''X''))"
    and "\<not> (length s > 2 \<and> s ! 1 = CHR ''0'' \<and> (s ! 2 = CHR ''x'' \<or> s ! 2 = CHR ''X''))"
    and "bitSize \<le> 64"
  shows "snd (ParseInt s 0 bitSize) \<noteq> None"
proof -
  from assms(1) have len: "length s \<noteq> 0" by auto
  let ?t = "if s ! 0 = CHR ''+'' \<or> s ! 0 = CHR ''-'' then drop 1 s else s"
  have rejected: "snd (ParseUint ?t 0 b) \<noteq> None" for b
  proof (cases "s ! 0 = CHR ''+'' \<or> s ! 0 = CHR ''-''")
    case True
    with assms(1,3,4) have mem: "c \<in> set (drop 1 s)"
      by (cases s) auto
    have "\<not> (length (drop 1 s) > 1 \<and> drop 1 s ! 0 = CHR ''0'' \<and>
        (drop 1 s ! 1 = CHR ''x'' \<or> drop 1 s ! 1 = CHR ''X''))"
      using assms(6) by (cases s) (auto simp: nth_Cons')
    from ParseUint_rejects_non_digit [OF mem assms(2) this] True show ?thesis by simp
  next
    case False
    from ParseUint_rejects_non_digit [OF assms(1,2,5)] False show ?thesis by simp
  qed
  let ?bits = "if bitSize = 0 then IntSize else bitSize"
  have cutoff: "(2 :: nat) ^ (?bits - 1) < maxUint64"
  proof -
    from assms(7) have "?bits - 1 \<le> 63" by (auto simp: IntSize_def)
    then have "(2 :: nat) ^ (?bits - 1) \<le> 2 ^ 63"
      by (intro power_increasing) simp_all
    then show ?thesis by (simp add: maxUint64_def)
  qed
  show ?thesis
  proof (cases "ParseUint ?t 0 ?bits")
    case (Pair un err)
    with rejected [of ?bits] obtain e where e: "err = Some e" by auto
    show ?thesis
    proof (cases "e = ErrRange")
      case True
      with Pair e have "un = maxUint64" by (simp add: ParseUint_ErrRange)
      with Pair e True len cutoff show ?thesis
        by (simp add: ParseInt_def Let_def)
    next
      case False
      with Pair e len show ?thesis
        by (simp add: ParseInt_def Let_def)
    qed
  qed
qed

subsection \<open>The fields of a status line\<close>




subsection \<open>Evaluation\<close>

text \<open>The rewrite rules that evaluate the model on a given file.\<close>

lemmas eval_simps =
  ReadFile_def ScanLines_def MaxScanTokenSize_def dropCR_def index_def Atoi_def ParseInt_def
  ParseUint_def ParseUint_base_def IntSize_def maxUint64_def digit_val_def Let_def Split.simps
  HasPrefix_def ReadString_def CommandLine_loop.simps Sprintf_d_def decimal.simps
  Fields_def asciiSpace_def stat_line_def status_line_def example_fields_def Trim_def TrimLeft_def TrimRight_def TrimSpace_def

subsection \<open>Unreadable files\<close>

text \<open>
  C5. When the file of a process cannot be read, the result is empty and the process is
  not ended: \<^verbatim>\<open>Stat\<close> returns the nil pointer, \<^verbatim>\<open>UniqueID\<close> the empty string
  (whatever the default file system holds, since the boot identifier is not read),
  \<^verbatim>\<open>Cgroups\<close> and \<^verbatim>\<open>CommandLine\<close> the nil slice.
\<close>

theorem unreadable_file_gives_empty_result:
  "(ReadFile fs (Sprintf_d (sint p) @ ''/stat'') = None \<longrightarrow>
      Stat fs p = None \<and> UniqueID sha256 procFS fs p = Inr '''') \<and>
   (ReadFile fs (Sprintf_d (sint p) @ ''/cgroup'') = None \<longrightarrow> Cgroups fs p = Inr []) \<and>
   (ReadFile fs (Sprintf_d (sint p) @ ''/cmdline'') = None \<longrightarrow> CommandLine fs p = [])"
  by (simp add: Stat_def UniqueID_def Cgroups_def CommandLine_def)

theorem unreadable_file_gives_empty_result_witness:
  "ReadFile fs_example (Sprintf_d (sint (9 :: 32 word)) @ ''/stat'') = None \<and>
   ReadFile fs_example (Sprintf_d (sint (9 :: 32 word)) @ ''/cgroup'') = None \<and>
   ReadFile fs_example (Sprintf_d (sint (9 :: 32 word)) @ ''/cmdline'') = None \<and>
   Stat fs_example 9 = None \<and>
   UniqueID (\<lambda>bytes. bytes) fs_example fs_example 9 = Inr '''' \<and>
   Cgroups fs_example 9 = Inr [] \<and>
   CommandLine fs_example 9 = []"
proof -
  have stat: "ReadFile fs_example (Sprintf_d (sint (9 :: 32 word)) @ ''/stat'') = None"
    by (simp add: fs_example_def eval_simps)
  have cgroup: "ReadFile fs_example (Sprintf_d (sint (9 :: 32 word)) @ ''/cgroup'') = None"
    by (simp add: fs_example_def eval_simps)
  have cmdline: "ReadFile fs_example (Sprintf_d (sint (9 :: 32 word)) @ ''/cmdline'') = None"
    by (simp add: fs_example_def eval_simps)
  from stat cgroup cmdline
    unreadable_file_gives_empty_result [of fs_example 9 "\<lambda>bytes. bytes" fs_example]
  show ?thesis by blast
qed

subsection \<open>Cgroups\<close>

lemma Cgroups_loop_append:
  "Cgroups_loop (pre @ ts) acc =
     (case Cgroups_loop pre acc of Inl e \<Rightarrow> Inl e | Inr acc' \<Rightarrow> Cgroups_loop ts acc')"
proof (induction pre arbitrary: acc)
  case Nil
  show ?case by simp
next
  case (Cons t pre)
  show ?case
    by (simp add: Let_def Cons.IH split: sum.split prod.split option.split)
qed

lemma Cgroups_loop_short_line:
  assumes "snd (Atoi (hd (Split t (CHR '':'')))) = None" and "length (Split t (CHR '':'')) < 3"
  shows "Cgroups_loop (t # ts) acc =
    Inl (IndexOutOfRange (length (Split t (CHR '':''))) (length (Split t (CHR '':''))))"
proof -
  let ?parts = "Split t (CHR '':'')"
  obtain i where atoi: "Atoi (hd ?parts) = (i, None)"
    using assms(1) by (cases "Atoi (hd ?parts)") simp
  have "length ?parts \<noteq> 0"
    using Split_not_Nil [of t "CHR '':''"] by simp
  with assms(2) consider "length ?parts = 1" | "length ?parts = 2"
    by arith
  then show ?thesis
  proof cases
    case 1
    then have "index ?parts 1 = Inl (IndexOutOfRange 1 1)"
      by (simp add: index_def)
    with 1 atoi show ?thesis
      by (simp add: Let_def index_Split_0)
  next
    case 2
    then have "index ?parts 1 = Inr (?parts ! 1)" "index ?parts 2 = Inl (IndexOutOfRange 2 2)"
      by (simp_all add: index_def)
    with 2 atoi show ?thesis
      by (simp add: Let_def index_Split_0)
  qed
qed

text \<open>
  A line \<^verbatim>\<open>id:controllers:path\<close> gives one record; its path is the text up to the next
  colon.
\<close>

lemma Cgroups_loop_line:
  assumes "CHR '':'' \<notin> set a" and "CHR '':'' \<notin> set b" and "Atoi a = (i, None)"
  shows "Cgroups_loop ((a @ CHR '':'' # b @ CHR '':'' # path) # ts) acc =
    Cgroups_loop ts (acc @ [\<lparr>ID = i, Controllers = Split b (CHR '',''),
      Path = takeWhile (\<lambda>c. c \<noteq> CHR '':'') path\<rparr>])"
proof -
  have "Split (a @ CHR '':'' # b @ CHR '':'' # path) (CHR '':'') = a # b # Split path (CHR '':'')"
    using assms(1,2) by (simp add: Split_at_sep)
  moreover obtain p ps where "Split path (CHR '':'') = p # ps"
    using Split_not_Nil [of path "CHR '':''"] by (cases "Split path (CHR '':'')") auto
  moreover from this have "p = takeWhile (\<lambda>c. c \<noteq> CHR '':'') path"
    using hd_Split [of path "CHR '':''"] by simp
  ultimately show ?thesis
    using assms(3) by (simp add: Let_def index_def)
qed

text \<open>The specification's example: two lines give two records, in the order of the file.\<close>

lemma Cgroups_example:
  "Cgroups fs_example 1 =
     Inr [\<lparr>ID = 1, Controllers = [''cpu'', ''cpuacct''], Path = ''/''\<rparr>,
          \<lparr>ID = 2, Controllers = [''pids''], Path = ''/user.slice''\<rparr>]"
  by (simp add: Cgroups_def fs_example_def eval_simps)

text \<open>
  C2. The claim is that a line is split at its first two colons only, so that a path with
  a colon is returned whole. The code splits at every colon and takes the third piece:
  for the line \<^verbatim>\<open>1:name=systemd:/a:b\<close> the record's path is \<^verbatim>\<open>/a\<close>, not \<^verbatim>\<open>/a:b\<close>.
\<close>

theorem Cgroups_cuts_path_at_colon:
  "Cgroups fs_example 2 = Inr [\<lparr>ID = 1, Controllers = [''name=systemd''], Path = ''/a''\<rparr>]"
  by (simp add: Cgroups_def fs_example_def eval_simps)

text \<open>
  C10. A line with fewer than three pieces between colons, whose first piece is a number,
  ends the process by an index out of range, not by the \<^verbatim>\<open>glog.Fatalf\<close> for a line that
  cannot be parsed: the lines before it were parsed (\<open>Cgroups_loop before [] = Inr acc\<close>),
  and the index that fails is the number of pieces of the line. So \<^verbatim>\<open>Cgroups\<close> does not
  return for every file that can be read.
\<close>

theorem Cgroups_short_line_index_out_of_range:
  assumes "ReadFile fs (Sprintf_d (sint p) @ ''/cgroup'') = Some cgroup"
    and "ScanLines cgroup = before @ t # after"
    and "Cgroups_loop before [] = Inr acc"
    and "snd (Atoi (hd (Split t (CHR '':'')))) = None"
    and "length (Split t (CHR '':'')) < 3"
  shows "Cgroups fs p =
    Inl (IndexOutOfRange (length (Split t (CHR '':''))) (length (Split t (CHR '':''))))"
proof -
  have "Cgroups fs p = Cgroups_loop (before @ t # after) []"
    using assms(1,2) by (simp add: Cgroups_def)
  also have "\<dots> = Cgroups_loop (t # after) acc"
    using assms(3) by (simp only: Cgroups_loop_append sum.case)
  also have "\<dots> =
      Inl (IndexOutOfRange (length (Split t (CHR '':''))) (length (Split t (CHR '':''))))"
    using assms(4,5) by (rule Cgroups_loop_short_line)
  finally show ?thesis .
qed

theorem Cgroups_short_line_index_out_of_range_witness:
  "ReadFile fs_example (Sprintf_d (sint (4 :: 32 word)) @ ''/cgroup'') = Some (''1:cpu'' @ [CHR 0x0A]) \<and>
   ScanLines (''1:cpu'' @ [CHR 0x0A]) = [] @ ''1:cpu'' # [] \<and>
   Atoi (hd (Split ''1:cpu'' (CHR '':''))) = (1, None) \<and>
   length (Split ''1:cpu'' (CHR '':'')) = 2 \<and>
   Cgroups fs_example 4 = Inl (IndexOutOfRange 2 2)"
proof -
  have readable: "ReadFile fs_example (Sprintf_d (sint (4 :: 32 word)) @ ''/cgroup'') = Some (''1:cpu'' @ [CHR 0x0A])"
    by (simp add: fs_example_def eval_simps)
  have lines: "ScanLines (''1:cpu'' @ [CHR 0x0A]) = [] @ ''1:cpu'' # []"
    by (simp add: eval_simps)
  have before: "Cgroups_loop [] [] = Inr []"
    by simp
  have atoi: "Atoi (hd (Split ''1:cpu'' (CHR '':''))) = (1, None)"
    by (simp add: eval_simps)
  have len: "length (Split ''1:cpu'' (CHR '':'')) = 2"
    by (simp add: eval_simps)
  have "Cgroups fs_example 4 = Inl (IndexOutOfRange 2 2)"
    using Cgroups_short_line_index_out_of_range [OF readable lines before] atoi len by simp
  with readable lines atoi len show ?thesis by blast
qed

subsection \<open>ContainerID\<close>

lemma ContainerID_loop_find:
  "ContainerID_loop cgroups =
     (case find (\<lambda>pci. HasPrefix (Path pci) ''/docker'') cgroups of
        None \<Rightarrow> Inr ''''
      | Some pci \<Rightarrow> index (Split (Path pci) (CHR ''/'')) 2)"
  by (induction cgroups) simp_all

text \<open>
  The specification's examples: the third piece of the first path that starts with
  \<^verbatim>\<open>/docker\<close>, and the empty string when no path does.
\<close>

lemma ContainerID_example: "ContainerID fs_example 5 = Inr ''abc123def456''"
  by (simp add: ContainerID_def Cgroups_def fs_example_def eval_simps)

lemma ContainerID_example_none: "ContainerID fs_example 1 = Inr ''''"
  by (simp add: ContainerID_def Cgroups_def fs_example_def eval_simps)

lemma ContainerID_third_piece:
  assumes "Cgroups fs p = Inr cgroups"
    and "find (\<lambda>pci. HasPrefix (Path pci) ''/docker'') cgroups = Some pci"
    and "2 < length (Split (Path pci) (CHR ''/''))"
  shows "ContainerID fs p = Inr (Split (Path pci) (CHR ''/'') ! 2)"
  using assms by (simp add: ContainerID_def ContainerID_loop_find index_def)

lemma ContainerID_no_docker:
  assumes "Cgroups fs p = Inr cgroups"
    and "find (\<lambda>pci. HasPrefix (Path pci) ''/docker'') cgroups = None"
  shows "ContainerID fs p = Inr ''''"
  using assms by (simp add: ContainerID_def ContainerID_loop_find)

text \<open>
  C6. The claim is that \<^verbatim>\<open>ContainerID\<close> returns, for every sequence of records, the third
  piece of the first path that starts with \<^verbatim>\<open>/docker\<close>, or the empty string. For the
  file of process 6, whose second record has the path \<^verbatim>\<open>/docker\<close>, it returns nothing:
  the path has two pieces and \<^verbatim>\<open>pathParts[2]\<close> is out of range.
\<close>

theorem ContainerID_does_not_return_on_docker_root:
  "ContainerID fs_example 6 = Inl (IndexOutOfRange 2 2)"
  by (simp add: ContainerID_def Cgroups_def fs_example_def eval_simps)

text \<open>
  C9. When the first path that starts with \<^verbatim>\<open>/docker\<close> has fewer than three pieces
  between slashes, the index \<^verbatim>\<open>pathParts[2]\<close> is out of range and \<^verbatim>\<open>ContainerID\<close> ends
  the process instead of returning a string; the path \<^verbatim>\<open>/docker\<close> is such a path.
\<close>

theorem ContainerID_index_out_of_range:
  assumes "Cgroups fs p = Inr cgroups"
    and "find (\<lambda>pci. HasPrefix (Path pci) ''/docker'') cgroups = Some pci"
    and "length (Split (Path pci) (CHR ''/'')) < 3"
  shows "ContainerID fs p = Inl (IndexOutOfRange 2 (length (Split (Path pci) (CHR ''/''))))"
  using assms by (simp add: ContainerID_def ContainerID_loop_find index_def)

theorem ContainerID_index_out_of_range_witness:
  "Cgroups fs_example 3 = Inr [\<lparr>ID = 1, Controllers = [''cpu''], Path = ''/docker''\<rparr>] \<and>
   Split ''/docker'' (CHR ''/'') = ['''', ''docker''] \<and>
   ContainerID fs_example 3 = Inl (IndexOutOfRange 2 2)"
proof -
  let ?pci = "\<lparr>ID = 1, Controllers = [''cpu''], Path = ''/docker''\<rparr>"
  have cgroups: "Cgroups fs_example 3 = Inr [?pci]"
    by (simp add: Cgroups_def fs_example_def eval_simps)
  have first: "find (\<lambda>pci. HasPrefix (Path pci) ''/docker'') [?pci] = Some ?pci"
    by (simp add: HasPrefix_def)
  have pieces: "Split ''/docker'' (CHR ''/'') = ['''', ''docker'']"
    by (simp add: eval_simps)
  then have short: "length (Split (Path ?pci) (CHR ''/'')) < 3"
    by simp
  have "ContainerID fs_example 3 = Inl (IndexOutOfRange 2 2)"
    using ContainerID_index_out_of_range [OF cgroups first short] pieces by simp
  with cgroups pieces show ?thesis by blast
qed

subsection \<open>The status record\<close>

lemma Command_first_call:
  "comm ps = [] \<Longrightarrow> 1 < length (statFields ps) \<Longrightarrow>
    Command ps = Inr (Trim (statFields ps ! 1) ''()'', ps\<lparr>comm := Trim (statFields ps ! 1) ''()''\<rparr>)"
  by (simp add: Command_def index_def)

lemma Trim_parentheses:
  assumes "CHR ''('' \<notin> set name" and "CHR '')'' \<notin> set name"
  shows "Trim (''('' @ name @ '')'') ''()'' = name"
proof (cases name rule: rev_cases)
  case Nil
  then show ?thesis by (simp add: Trim_def TrimLeft_def TrimRight_def)
next
  case (snoc butl l)
  with assms have l: "l \<noteq> CHR ''(''" "l \<noteq> CHR '')''" by auto
  from snoc have "name \<noteq> []" by simp
  then obtain h tl where name: "name = h # tl"
    by (cases name) auto
  with assms have h: "h \<noteq> CHR ''(''" "h \<noteq> CHR '')''"
    by auto
  have left: "TrimLeft (''('' @ name @ '')'') ''()'' = name @ '')''"
    using h by (simp add: TrimLeft_def name)
  have "TrimRight (name @ '')'') ''()'' = name"
    using l by (simp add: TrimRight_def snoc)
  with left show ?thesis by (simp add: Trim_def)
qed

text \<open>
  A command name with no parenthesis in it comes back as it is (the second field is the
  name in parentheses; a name with white space in it is not one field).
\<close>

lemma Command_plain_name:
  assumes "comm ps = []" and "1 < length (statFields ps)"
    and "statFields ps ! 1 = ''('' @ name @ '')''"
    and "CHR ''('' \<notin> set name" and "CHR '')'' \<notin> set name"
  shows "map_sum id fst (Command ps) = Inr name"
  using assms by (simp add: Command_first_call Trim_parentheses del: append.simps)

text \<open>
  C3. The claim is that \<^verbatim>\<open>Command\<close> strips one layer of parentheses, so that the name
  \<^verbatim>\<open>(sd-pam)\<close>, which the kernel writes as \<^verbatim>\<open>((sd-pam))\<close>, comes back as \<^verbatim>\<open>(sd-pam)\<close>.
  The code calls \<^verbatim>\<open>strings.Trim\<close>, which strips every leading and trailing parenthesis:
  for process 2 the command is \<^verbatim>\<open>sd-pam\<close>.
\<close>

theorem Command_strips_every_parenthesis:
  "map_option (\<lambda>ps. map_sum id fst (Command ps)) (Stat fs_example 2) = Some (Inr ''sd-pam'')"
  by (simp add: Stat_def Command_def fs_example_def eval_simps)

subsection \<open>CommandLine\<close>



text \<open>The specification's examples.\<close>

lemma CommandLine_example: "CommandLine fs_example 1 = [''ls'', ''-la'']"
  by (simp add: CommandLine_def fs_example_def eval_simps)

lemma CommandLine_loop_empty: "CommandLine_loop [] [] = []"
  by (simp add: eval_simps)




subsection \<open>UniqueID\<close>

text \<open>
  What is hashed on the first call: the 8 bytes of the start of the stack and the 8 bytes
  of the start time. The boot identifier is read, and a failure to read it ends the
  process, but \<^verbatim>\<open>binary.Write\<close> writes none of its bytes.
\<close>

lemma ProcessStatus_UniqueID_first_call:
  assumes "uniqueID ps = []" and "BootID procFS = Inr bootID"
    and "StartStack ps = Inr (ss, ps1)" and "StartTime ps1 = Inr (st, ps2)"
  shows "ProcessStatus_UniqueID sha256 procFS ps =
    Inr (Sprintf_x (sha256 (PutUint64 ss @ PutUint64 st)),
         ps2\<lparr>uniqueID := Sprintf_x (sha256 (PutUint64 ss @ PutUint64 st))\<rparr>)"
  using assms by (simp add: ProcessStatus_UniqueID_def Let_def)

lemma BootID_procFS_boot: "BootID (procFS_boot ''a4b1'') = Inr ''a4b1''" "BootID (procFS_boot ''77c0'') = Inr ''77c0''"
  by (simp_all add: BootID_def procFS_boot_def ReadFile_def TrimSpace_def asciiSpace_def)

text \<open>
  Process 1 of the example, with the identity as the hash function, so that the token
  shows the bytes that are hashed: the start of the stack \<open>0x7fffffffe000\<close> and the start
  time \<open>0x181cd\<close>, 8 bytes each, least significant byte first.
\<close>

lemma UniqueID_example:
  "UniqueID (\<lambda>bytes. bytes) (procFS_boot ''a4b1'') fs_example 1 =
     Inr ''00e0ffffff7f0000cd81010000000000''"
  by (simp add: UniqueID_def ProcessStatus_UniqueID_def BootID_procFS_boot Stat_def
      StartStack_def StartTime_def fs_example_def eval_simps PutUint64_def upt_rec Sprintf_x_def
      hex_byte_def drop_bit_eq_div)

text \<open>
  C1. The claim is that the boot identifier is the first part of what is hashed, so that
  two boot identifiers give two tokens for the same start of the stack and start time.
  The code passes the \<^verbatim>\<open>string\<close> to \<^verbatim>\<open>binary.Write\<close>, which writes a fixed-size
  value only and returns an error that is dropped: whatever the two boot identifiers are,
  and whatever the hash function is, the tokens are the same.
\<close>

theorem UniqueID_same_for_all_boot_identifiers:
  assumes "BootID procFS = Inr bootID" and "BootID procFS' = Inr bootID'"
  shows "UniqueID sha256 procFS fs p = UniqueID sha256 procFS' fs p"
  using assms by (simp add: UniqueID_def ProcessStatus_UniqueID_def Let_def split: option.split)

theorem UniqueID_same_for_all_boot_identifiers_witness:
  "BootID (procFS_boot ''a4b1'') = Inr ''a4b1'' \<and>
   BootID (procFS_boot ''77c0'') = Inr ''77c0'' \<and>
   UniqueID (\<lambda>bytes. bytes) (procFS_boot ''a4b1'') fs_example 1 =
     Inr ''00e0ffffff7f0000cd81010000000000'' \<and>
   UniqueID (\<lambda>bytes. bytes) (procFS_boot ''77c0'') fs_example 1 =
     Inr ''00e0ffffff7f0000cd81010000000000''"
  using UniqueID_same_for_all_boot_identifiers
    [OF BootID_procFS_boot(1) BootID_procFS_boot(2), of "\<lambda>bytes. bytes" fs_example 1]
    BootID_procFS_boot UniqueID_example
  by simp

subsection \<open>The cache of a status record\<close>




















subsection \<open>The numeric fields of a status record\<close>












end
